theory Spec2Isabelle
  imports Complex_Main
begin

section \<open>The chunker state\<close>

text \<open>
  The three front ends (\<^verbatim>\<open>src/cli/xcli.cpp\<close>, \<^verbatim>\<open>src/cli/cli.cpp\<close>, \<^verbatim>\<open>src/gui.cpp\<close>)
  carry the same engine: a text, a chunk size, two direction flags and a position.
  The embedding follows \<^verbatim>\<open>class TextChunker\<close> of \<^verbatim>\<open>xcli.cpp\<close>, the variant that
  also tracks the chunks already copied (\<^verbatim>\<open>used_chunks\<close>).

  \<^item> \<^verbatim>\<open>std::string\<close> is \<open>string\<close>; \<^verbatim>\<open>text.length()\<close> is \<open>length\<close>.
  \<^item> \<^verbatim>\<open>size_t\<close> values (64 bits) are \<open>nat\<close> and \<^verbatim>\<open>int\<close> values (32 bits) are \<open>int\<close>, with
    the machine's behaviour written out where a value can leave its type:
    \<^verbatim>\<open>recalculateChunks\<close> computes the count modulo \<open>2 ^ 64\<close> (\<open>size_wrap\<close>) and narrows
    it to an \<^verbatim>\<open>int\<close> (\<open>int_of_size\<close>); the two unsigned subtractions of
    \<^verbatim>\<open>getChunkAtPosition\<close> wrap around (\<open>size_sub\<close>); \<^verbatim>\<open>hasUnusedChunks\<close> compares after
    converting the \<^verbatim>\<open>int\<close> to \<^verbatim>\<open>size_t\<close> (\<open>size_of_int\<close>). The products and the sum of
    \<^verbatim>\<open>getChunkAtPosition\<close> are exact: they stay below \<open>2 ^ 64\<close> at every position in
    \<open>1..total_chunks\<close> of an engine whose stored count is at most the true one and whose
    text is shorter than \<open>2 ^ 63\<close> (\<open>bounds_in_range\<close> below). The steps
    \<open>current_chunk + 1\<close>, \<open>current_chunk - 1\<close> and \<open>total_chunks - current_chunk + 1\<close> are
    exact: they stay inside \<^verbatim>\<open>int\<close> when the position is in \<open>1..total_chunks\<close> and the count
    is below \<open>2 ^ 31 - 1\<close>; signed overflow is undefined in C++, and no example below
    relies on it.
  \<^item> \<^verbatim>\<open>std::set<std::string>\<close> is \<open>string set\<close>.
  \<^item> The clipboard and the temporary file are outside the engine and are left out:
    \<^verbatim>\<open>updateTempFile\<close> and \<^verbatim>\<open>clipboard.setClipboard\<close> change no field below.
  \<^item> A C++ exception that nothing catches is the value \<open>Inl e\<close>; a loop that does not
    return is the value \<open>None\<close>.
\<close>

record chunker =
  text_str :: string
  chunk_size :: nat
  tail_mode :: bool
  inverted :: bool
  current_chunk :: int
  total_chunks :: int
  used_chunks :: "string set"

datatype exn = Std_out_of_range

text \<open>The condition \<^verbatim>\<open>tail_mode ^ inverted\<close> that every direction-dependent branch tests.\<close>

definition reverse_anchored :: "chunker \<Rightarrow> bool" where
  "reverse_anchored s = (tail_mode s \<noteq> inverted s)"

text \<open>The \<^verbatim>\<open>size_t\<close> value of an expression whose exact value is \<open>n\<close>; the \<^verbatim>\<open>int\<close> a
  \<^verbatim>\<open>size_t\<close> value is narrowed to (the low 32 bits, two's complement); the \<^verbatim>\<open>size_t\<close> an
  \<^verbatim>\<open>int\<close> is converted to in a comparison of the two.\<close>

definition size_wrap :: "nat \<Rightarrow> nat" where
  "size_wrap n = n mod 2 ^ 64"

definition int_of_size :: "nat \<Rightarrow> int" where
  "int_of_size n = (if n mod 2 ^ 32 < 2 ^ 31 then int (n mod 2 ^ 32) else int (n mod 2 ^ 32) - 2 ^ 32)"

definition size_of_int :: "int \<Rightarrow> nat" where
  "size_of_int z = (if 0 \<le> z then nat z else nat (z + 2 ^ 64))"

text \<open>Subtraction of two \<^verbatim>\<open>size_t\<close> values, modulo \<open>2 ^ 64\<close>.\<close>

definition size_sub :: "nat \<Rightarrow> nat \<Rightarrow> nat" where
  "size_sub a b = (if b \<le> a then a - b else a + 2 ^ 64 - b)"

text \<open>\<^verbatim>\<open>std::string::substr(pos, n)\<close>: throws when \<open>pos\<close> is beyond the end, and cuts
  the count at the end of the string.\<close>

definition substr :: "string \<Rightarrow> nat \<Rightarrow> nat \<Rightarrow> exn + string" where
  "substr t pos n = (if pos > length t then Inl Std_out_of_range else Inr (take n (drop pos t)))"

section \<open>Chunk boundaries\<close>

text \<open>\<^verbatim>\<open>recalculateChunks\<close> (xcli.cpp 210-223). The quotient is taken on \<^verbatim>\<open>size_t\<close> and
  stored in the \<^verbatim>\<open>int\<close> member \<^verbatim>\<open>total_chunks\<close> (xcli.cpp 205, 211). The division traps on a
  chunk size 0, which \<^verbatim>\<open>main\<close> and the resize-command refuse; every statement below is about
  a positive size.\<close>

definition recalculateChunks :: "chunker \<Rightarrow> chunker" where
  "recalculateChunks s =
     (let t0 = int_of_size (size_wrap (length (text_str s) + chunk_size s - 1) div chunk_size s);
          t = (if t0 = 0 then 1 else t0);
          c1 = (if current_chunk s > t then t else current_chunk s);
          c2 = (if c1 < 1 then 1 else c1)
      in s\<lparr>total_chunks := t, current_chunk := c2\<rparr>)"

text \<open>The pair \<^verbatim>\<open>(start_pos, end_pos)\<close> that \<^verbatim>\<open>getChunkAtPosition\<close> computes
  (xcli.cpp 279-287), for a position that passed the range check.\<close>

definition chunk_bounds :: "chunker \<Rightarrow> int \<Rightarrow> nat \<times> nat" where
  "chunk_bounds s pos =
     (if reverse_anchored s then
        (let end_pos = size_sub (length (text_str s)) (nat (total_chunks s - pos) * chunk_size s);
             start_pos = (if end_pos > chunk_size s then end_pos - chunk_size s else 0)
         in (start_pos, end_pos))
      else
        (let start_pos = nat (pos - 1) * chunk_size s;
             end_pos = min (start_pos + chunk_size s) (length (text_str s))
         in (start_pos, end_pos)))"

text \<open>\<^verbatim>\<open>getChunkAtPosition\<close> (xcli.cpp 274-290; the same body in cli.cpp 79-91 and
  gui.cpp 47-58).\<close>

definition getChunkAtPosition :: "chunker \<Rightarrow> int \<Rightarrow> exn + string" where
  "getChunkAtPosition s pos =
     (if pos < 1 \<or> pos > total_chunks s then Inr []
      else (case chunk_bounds s pos of
              (start_pos, end_pos) \<Rightarrow> substr (text_str s) start_pos (size_sub end_pos start_pos)))"

definition getCurrentChunk :: "chunker \<Rightarrow> exn + string" where
  "getCurrentChunk s = getChunkAtPosition s (current_chunk s)"

section \<open>Commands\<close>

text \<open>Of what \<^verbatim>\<open>processCommand\<close> prints, the model keeps the three messages that report a
  command it did not carry out (xcli.cpp 451, 463, 467).\<close>

datatype notice = Invalid_chunk_size | Invalid_chunk_number | Commands_help

text \<open>What a call of \<^verbatim>\<open>processCommand\<close> leaves behind: the returned flag, the message, the
  engine, and the lines of standard input not yet read.\<close>

record outcome =
  keep_running :: bool
  message :: "notice option"
  engine :: chunker
  rest_input :: "string list"

text \<open>How a session stands once the lines typed so far are used up: the loop has left with
  \<^verbatim>\<open>auto_exit\<close>, has left on a quit command, or waits in \<^verbatim>\<open>std::getline\<close>.\<close>

datatype final = Auto_exit chunker | Quit chunker | Awaiting_input chunker

text \<open>\<^verbatim>\<open>isChunkUsed\<close> and \<^verbatim>\<open>markChunkAsUsed\<close> (xcli.cpp 240-246).\<close>

definition isChunkUsed :: "chunker \<Rightarrow> string \<Rightarrow> bool" where
  "isChunkUsed s chunk = (chunk \<in> used_chunks s)"

definition markChunkAsUsed :: "string \<Rightarrow> chunker \<Rightarrow> chunker" where
  "markChunkAsUsed chunk s = s\<lparr>used_chunks := insert chunk (used_chunks s)\<rparr>"

text \<open>The step to the next chunk (xcli.cpp 258-262, 393-397, 427-431) and to the previous
  one (xcli.cpp 421-425). \<open>current_chunk + 1\<close> is an \<^verbatim>\<open>int\<close> as long as the position is below
  \<open>2 ^ 31 - 1\<close>.\<close>

definition move_next :: "chunker \<Rightarrow> chunker" where
  "move_next s =
     (if reverse_anchored s then s\<lparr>current_chunk := max 1 (current_chunk s - 1)\<rparr>
      else s\<lparr>current_chunk := min (total_chunks s) (current_chunk s + 1)\<rparr>)"

definition move_prev :: "chunker \<Rightarrow> chunker" where
  "move_prev s =
     (if reverse_anchored s then s\<lparr>current_chunk := min (total_chunks s) (current_chunk s + 1)\<rparr>
      else s\<lparr>current_chunk := max 1 (current_chunk s - 1)\<rparr>)"

text \<open>\<^verbatim>\<open>findNextUnusedChunk\<close> (xcli.cpp 248-272). The \<^verbatim>\<open>do ... while (true)\<close> loop works on
  the member \<^verbatim>\<open>current_chunk\<close>, so the engine is passed along and returned with the result;
  \<open>start_chunk\<close> is the local variable of that name.\<close>

partial_function (option) findNextUnused_loop :: "int \<Rightarrow> chunker \<Rightarrow> (exn + int \<times> chunker) option" where
  "findNextUnused_loop start_chunk s =
     (case getChunkAtPosition s (current_chunk s) of
        Inl e \<Rightarrow> Some (Inl e)
      | Inr chunk \<Rightarrow>
          if \<not> isChunkUsed s chunk then Some (Inr (current_chunk s, s))
          else if current_chunk (move_next s) = start_chunk then Some (Inr (- 1, move_next s))
          else findNextUnused_loop start_chunk (move_next s))"

definition findNextUnusedChunk :: "chunker \<Rightarrow> (exn + int \<times> chunker) option" where
  "findNextUnusedChunk s = findNextUnused_loop (current_chunk s) s"

text \<open>\<^verbatim>\<open>copyToClipboard\<close> (xcli.cpp 352-373).\<close>

definition copyToClipboard :: "chunker \<Rightarrow> (exn + chunker) option" where
  "copyToClipboard s =
     (case getCurrentChunk s of
        Inl e \<Rightarrow> Some (Inl e)
      | Inr chunk \<Rightarrow>
          if chunk \<noteq> [] then
            if \<not> isChunkUsed s chunk then Some (Inr (markChunkAsUsed chunk s))
            else
              (case findNextUnusedChunk s of
                 None \<Rightarrow> None
               | Some (Inl e) \<Rightarrow> Some (Inl e)
               | Some (Inr (next_unused, s1)) \<Rightarrow>
                   if next_unused \<noteq> - 1 then
                     (case getCurrentChunk (s1\<lparr>current_chunk := next_unused\<rparr>) of
                        Inl e \<Rightarrow> Some (Inl e)
                      | Inr chunk2 \<Rightarrow>
                          Some (Inr (markChunkAsUsed chunk2 (s1\<lparr>current_chunk := next_unused\<rparr>))))
                   else Some (Inr s1))
          else Some (Inr s))"

text \<open>\<^verbatim>\<open>appendText\<close> (xcli.cpp 332-346): lines are read up to the first empty one, each
  followed by a newline.\<close>

fun read_lines :: "string list \<Rightarrow> string \<times> string list" where
  "read_lines [] = ([], [])"
| "read_lines (line # rest) =
     (if line = [] then ([], rest)
      else (case read_lines rest of (later, rest2) \<Rightarrow> (line @ [CHR 0x0A] @ later, rest2)))"

definition appendText :: "string list \<Rightarrow> chunker \<Rightarrow> chunker \<times> string list" where
  "appendText stdin s =
     (case read_lines stdin of
        (additional_text, rest) \<Rightarrow>
          if additional_text \<noteq> []
          then (recalculateChunks (s\<lparr>text_str := text_str s @ additional_text\<rparr>), rest)
          else (s, rest))"

text \<open>\<^verbatim>\<open>::isdigit\<close>, and \<^verbatim>\<open>std::stoul\<close> and \<^verbatim>\<open>std::stoi\<close> on a non-empty string of digits: the
  decimal value, or \<^verbatim>\<open>std::out_of_range\<close> when it does not fit the result type.\<close>

definition isdigit :: "char \<Rightarrow> bool" where
  "isdigit c = (48 \<le> (of_char c :: nat) \<and> (of_char c :: nat) \<le> 57)"

definition digits_value :: "string \<Rightarrow> nat" where
  "digits_value ds = foldl (\<lambda>acc c. 10 * acc + (of_char c - 48)) 0 ds"

definition stoul :: "string \<Rightarrow> exn + nat" where
  "stoul ds = (if digits_value ds > 2 ^ 64 - 1 then Inl Std_out_of_range else Inr (digits_value ds))"

definition stoi :: "string \<Rightarrow> exn + int" where
  "stoi ds = (if digits_value ds > 2 ^ 31 - 1 then Inl Std_out_of_range else Inr (int (digits_value ds)))"

text \<open>The closing bounds check of \<^verbatim>\<open>processCommand\<close> (xcli.cpp 475-477).\<close>

definition check_bounds :: "chunker \<Rightarrow> chunker" where
  "check_bounds s =
     (let c1 = (if current_chunk s < 1 then 1 else current_chunk s);
          c2 = (if c1 > total_chunks s then total_chunks s else c1)
      in s\<lparr>current_chunk := c2\<rparr>)"

text \<open>\<^verbatim>\<open>processCommand\<close> (xcli.cpp 385-480). The branches are tested in the order of the
  source; \<open>returns\<close> builds the outcome of a \<^verbatim>\<open>return\<close>.\<close>

definition returns :: "bool \<Rightarrow> notice option \<Rightarrow> chunker \<Rightarrow> string list \<Rightarrow> (exn + outcome) option" where
  "returns b m s stdin = Some (Inr \<lparr>keep_running = b, message = m, engine = s, rest_input = stdin\<rparr>)"

definition processCommand :: "string \<Rightarrow> string list \<Rightarrow> chunker \<Rightarrow> (exn + outcome) option" where
  "processCommand cmd stdin s =
     (if cmd = [] then
        (case findNextUnusedChunk s of
           None \<Rightarrow> None
         | Some (Inl e) \<Rightarrow> Some (Inl e)
         | Some (Inr (next_unused, s1)) \<Rightarrow>
             if next_unused \<noteq> - 1
             then returns True None (check_bounds (s1\<lparr>current_chunk := next_unused\<rparr>)) stdin
             else returns True None (check_bounds (move_next s1)) stdin)
      else if cmd = ''A'' \<or> cmd = ''a'' then
        (case appendText stdin s of (s1, rest) \<Rightarrow> returns True None s1 rest)
      else if cmd = ''R'' \<or> cmd = ''r'' then
        (case getCurrentChunk s of
           Inl e \<Rightarrow> Some (Inl e)
         | Inr chunk \<Rightarrow> returns True None (check_bounds s) stdin)
      else if cmd = ''U'' \<or> cmd = ''u'' then returns True None s stdin
      else if cmd = ''reset'' then returns True None (s\<lparr>used_chunks := {}\<rparr>) stdin
      else if cmd = ''P'' \<or> cmd = ''p'' then returns True None (check_bounds (move_prev s)) stdin
      else if cmd = ''N'' \<or> cmd = ''n'' then returns True None (check_bounds (move_next s)) stdin
      else if cmd = ''F'' \<or> cmd = ''f'' then
        returns True None
          (check_bounds (s\<lparr>current_chunk := (if reverse_anchored s then total_chunks s else 1)\<rparr>)) stdin
      else if cmd = ''L'' \<or> cmd = ''l'' then
        returns True None
          (check_bounds (s\<lparr>current_chunk := (if reverse_anchored s then 1 else total_chunks s)\<rparr>)) stdin
      else if cmd = ''I'' \<or> cmd = ''i'' then
        returns True None
          (check_bounds (s\<lparr>inverted := \<not> inverted s,
                           current_chunk := total_chunks s - current_chunk s + 1\<rparr>)) stdin
      else if hd cmd = CHR ''$'' \<and> length cmd > 1 \<and> list_all isdigit (tl cmd) then
        (case stoul (tl cmd) of
           Inl e \<Rightarrow> Some (Inl e)
         | Inr new_size \<Rightarrow>
             if new_size > 0 \<and> new_size \<le> length (text_str s)
             then returns True None
                    (check_bounds (recalculateChunks (s\<lparr>chunk_size := new_size, used_chunks := {}\<rparr>)))
                    stdin
             else returns True (Some Invalid_chunk_size) s stdin)
      else if cmd = ''q'' \<or> cmd = ''Q'' \<or> cmd = ''quit'' then returns False None s stdin
      else if list_all isdigit cmd then
        (case stoi cmd of
           Inl e \<Rightarrow> Some (Inl e)
         | Inr target \<Rightarrow>
             if target \<ge> 1 \<and> target \<le> total_chunks s
             then returns True None (check_bounds (s\<lparr>current_chunk := target\<rparr>)) stdin
             else returns True (Some Invalid_chunk_number) s stdin)
      else returns True (Some Commands_help) s stdin)"

text \<open>\<^verbatim>\<open>hasUnusedChunks\<close> and \<^verbatim>\<open>isAtFinalChunk\<close> (xcli.cpp 482-492). The comparison of
  \<^verbatim>\<open>used_chunks.size()\<close> with \<^verbatim>\<open>total_chunks\<close> is made on \<^verbatim>\<open>size_t\<close>.\<close>

definition hasUnusedChunks :: "chunker \<Rightarrow> bool" where
  "hasUnusedChunks s = (card (used_chunks s) < size_of_int (total_chunks s))"

definition isAtFinalChunk :: "chunker \<Rightarrow> bool" where
  "isAtFinalChunk s = (if reverse_anchored s then current_chunk s = 1 else current_chunk s = total_chunks s)"

text \<open>\<^verbatim>\<open>run\<close> (xcli.cpp 494-534). \<open>stdin\<close> holds the lines typed so far.\<close>

partial_function (option) run :: "string list \<Rightarrow> chunker \<Rightarrow> (exn + final) option" where
  "run stdin s =
     (case copyToClipboard s of
        None \<Rightarrow> None
      | Some (Inl e) \<Rightarrow> Some (Inl e)
      | Some (Inr s1) \<Rightarrow>
          if isAtFinalChunk s1 \<and> \<not> hasUnusedChunks s1 then Some (Inr (Auto_exit s1))
          else
            (case stdin of
               [] \<Rightarrow> Some (Inr (Awaiting_input s1))
             | input # rest \<Rightarrow>
                 (case processCommand input rest s1 of
                    None \<Rightarrow> None
                  | Some (Inl e) \<Rightarrow> Some (Inl e)
                  | Some (Inr out) \<Rightarrow>
                      if \<not> keep_running out then Some (Inr (Quit (engine out)))
                      else if isAtFinalChunk (engine out) then
                        (case getCurrentChunk (engine out) of
                           Inl e \<Rightarrow> Some (Inl e)
                         | Inr chunk \<Rightarrow>
                             if chunk = [] then Some (Inr (Auto_exit (engine out)))
                             else run (rest_input out) (engine out))
                      else run (rest_input out) (engine out))))"

text \<open>The constructor (xcli.cpp 293-294), which leaves \<^verbatim>\<open>total_chunks\<close> uninitialised, and
  \<^verbatim>\<open>loadText\<close> (xcli.cpp 303-330); \<open>source\<close> is what the clipboard or the file gave, \<open>None\<close> when
  the file could not be opened.\<close>

definition TextChunker :: "bool \<Rightarrow> nat \<Rightarrow> int \<Rightarrow> chunker" where
  "TextChunker tail sz uninitialised =
     \<lparr>text_str = [], chunk_size = sz, tail_mode = tail, inverted = False,
      current_chunk = 1, total_chunks = uninitialised, used_chunks = {}\<rparr>"

definition loadText :: "string option \<Rightarrow> chunker \<Rightarrow> bool \<times> chunker" where
  "loadText source s =
     (case source of
        None \<Rightarrow> (False, s)
      | Some content \<Rightarrow>
          if content = [] then (False, s\<lparr>text_str := content\<rparr>)
          else (let s1 = recalculateChunks (s\<lparr>text_str := content\<rparr>)
                in (True, if tail_mode s1 then s1\<lparr>current_chunk := total_chunks s1\<rparr> else s1)))"




section \<open>Notions used to state the properties\<close>

text \<open>The exact chunk count of the text, \<open>\<lceil>length text / chunk_size\<rceil>\<close>, and the engines whose
  sizes are values of their types: a \<^verbatim>\<open>std::string\<close> is shorter than \<open>2 ^ 63\<close> and a
  \<^verbatim>\<open>size_t\<close> is below \<open>2 ^ 64\<close>.\<close>

definition chunk_count :: "chunker \<Rightarrow> nat" where
  "chunk_count s = (length (text_str s) + chunk_size s - 1) div chunk_size s"

definition machine_sizes :: "chunker \<Rightarrow> bool" where
  "machine_sizes s \<longleftrightarrow> length (text_str s) < 2 ^ 63 \<and> chunk_size s < 2 ^ 64"

text \<open>The stored count is the exact one, for a loaded text; and the stored count is at
  most the exact one.\<close>

definition ceil_total :: "chunker \<Rightarrow> bool" where
  "ceil_total s \<longleftrightarrow> text_str s \<noteq> [] \<and> 0 < chunk_size s \<and>
     total_chunks s = int ((length (text_str s) + chunk_size s - 1) div chunk_size s)"

definition count_within :: "chunker \<Rightarrow> bool" where
  "count_within s \<longleftrightarrow> text_str s \<noteq> [] \<and> 0 < chunk_size s \<and>
     total_chunks s \<le> int (chunk_count s)"

text \<open>The \<open>i\<close>-th cut of the text: chunk \<open>i + 1\<close> lies between cut \<open>i\<close> and cut
  \<open>i + 1\<close>, in either direction.\<close>

definition boundary :: "chunker \<Rightarrow> nat \<Rightarrow> nat" where
  "boundary s i =
     (if reverse_anchored s
      then length (text_str s) - (nat (total_chunks s) - i) * chunk_size s
      else min (i * chunk_size s) (length (text_str s)))"


text \<open>The two components of \<^verbatim>\<open>(start_pos, end_pos)\<close>, the substring between two
  offsets, the length of a chunk, and the concatenation of a list of results.\<close>

definition chunk_start :: "chunker \<Rightarrow> int \<Rightarrow> nat" where
  "chunk_start s pos = fst (chunk_bounds s pos)"

definition chunk_end :: "chunker \<Rightarrow> int \<Rightarrow> nat" where
  "chunk_end s pos = snd (chunk_bounds s pos)"

definition slice :: "string \<Rightarrow> nat \<Rightarrow> nat \<Rightarrow> string" where
  "slice t a b = take (b - a) (drop a t)"

definition chunk_length :: "chunker \<Rightarrow> int \<Rightarrow> nat" where
  "chunk_length s pos = (case getChunkAtPosition s pos of Inl e \<Rightarrow> 0 | Inr c \<Rightarrow> length c)"


text \<open>The invariant of a loaded engine.\<close>

definition engine_inv :: "chunker \<Rightarrow> bool" where
  "engine_inv s \<longleftrightarrow> ceil_total s \<and> 1 \<le> current_chunk s \<and> current_chunk s \<le> total_chunks s"


text \<open>The engines on which \<^verbatim>\<open>recalculateChunks\<close> stores the exact count and no step of the
  position leaves \<^verbatim>\<open>int\<close>: sizes of their types and fewer than \<open>2 ^ 31 - 1\<close> chunks.\<close>

definition fits :: "chunker \<Rightarrow> bool" where
  "fits s \<longleftrightarrow> machine_sizes s \<and> chunk_count s < 2 ^ 31 - 1"


text \<open>The engine after a command, when \<^verbatim>\<open>processCommand\<close> returns.\<close>

definition after :: "string \<Rightarrow> string list \<Rightarrow> chunker \<Rightarrow> chunker option" where
  "after cmd stdin s =
     (case processCommand cmd stdin s of Some (Inr out) \<Rightarrow> Some (engine out) | _ \<Rightarrow> None)"





text \<open>The decimal digits of a number, as one types them after \<open>$\<close>.\<close>

fun decimal :: "nat \<Rightarrow> string" where
  "decimal n = (if n < 10 then [char_of (48 + n)]
                else decimal (n div 10) @ [char_of (48 + n mod 10)])"


text \<open>The example of the specification: 25 characters in chunks of 10.\<close>

definition s25 :: "bool \<Rightarrow> chunker" where
  "s25 t = \<lparr>text_str = ''abcdefghijklmnopqrstuvwxy'', chunk_size = 10, tail_mode = t,
     inverted = False, current_chunk = 1, total_chunks = 3, used_chunks = {}\<rparr>"

text \<open>Four characters in two equal chunks, the first one consumed.\<close>

definition stuck :: "int \<Rightarrow> chunker" where
  "stuck pos = \<lparr>text_str = ''abab'', chunk_size = 2, tail_mode = False, inverted = False,
     current_chunk = pos, total_chunks = 2, used_chunks = {''ab''}\<rparr>"

text \<open>Five characters in chunks of two: equal chunks at positions 1 and 2 when
  forward-anchored, at positions 2 and 3 when reverse-anchored.\<close>

definition dup :: "bool \<Rightarrow> int \<Rightarrow> string set \<Rightarrow> chunker" where
  "dup iv pos used = \<lparr>text_str = ''ababa'', chunk_size = 2, tail_mode = False, inverted = iv,
     current_chunk = pos, total_chunks = 3, used_chunks = used\<rparr>"

text \<open>A text of \<open>2 ^ 31\<close> characters, and the engine \<^verbatim>\<open>loadText\<close> makes of it with chunks
  of one character.\<close>

definition long_text :: string where
  "long_text = replicate (2 ^ 31) (CHR ''a'')"


text \<open>The same with one character more: \<open>2 ^ 31 + 1\<close> chunks of one character.\<close>

definition longer_engine :: "bool \<Rightarrow> int \<Rightarrow> chunker" where
  "longer_engine iv pos = \<lparr>text_str = CHR ''a'' # long_text, chunk_size = 1, tail_mode = False,
     inverted = iv, current_chunk = pos, total_chunks = 1 - 2 ^ 31, used_chunks = {}\<rparr>"

section \<open>Arithmetic of the chunk count\<close>

text \<open>\<open>size_sub\<close> is the subtraction modulo \<open>2 ^ 64\<close> on operands that are \<^verbatim>\<open>size_t\<close> values.\<close>

lemma size_sub_mod:
  assumes "a < 2 ^ 64" "b < 2 ^ 64"
  shows "int (size_sub a b) = (int a - int b) mod 2 ^ 64"
proof (cases "b \<le> a")
  case True
  then have "int a - int b = int (a - b)" by simp
  moreover have "a - b < 2 ^ 64" using assms(1) by simp
  ultimately show ?thesis using True by (simp add: size_sub_def del: of_nat_diff)
next
  case False
  then have "(int a - int b) mod 2 ^ 64 = (int a - int b + 2 ^ 64) mod 2 ^ 64" by simp
  also have "\<dots> = int a - int b + 2 ^ 64"
    using False assms by (intro mod_pos_pos_trivial) simp_all
  finally show ?thesis using False assms by (simp add: size_sub_def of_nat_diff)
qed

lemma ceil_div_bounds:
  fixes n c :: nat
  assumes "0 < c" "0 < n"
  shows "0 < (n + c - 1) div c" "((n + c - 1) div c - 1) * c < n" "n \<le> ((n + c - 1) div c) * c"
proof -
  let ?T = "(n + c - 1) div c"
  have m: "?T * c + (n + c - 1) mod c = n + c - 1" by simp
  have r: "(n + c - 1) mod c < c" using assms by simp
  show p: "0 < ?T" using assms by (simp add: div_greater_zero_iff)
  show "n \<le> ?T * c" using m r assms by linarith
  have "?T * c \<le> n + c - 1" using m by linarith
  moreover have "(?T - 1) * c + c = ?T * c" using p by (simp add: algebra_simps diff_mult_distrib)
  ultimately show "(?T - 1) * c < n" using assms by linarith
qed

lemma ceil_div_ceiling:
  fixes n c :: nat
  assumes "0 < c"
  shows "int ((n + c - 1) div c) = \<lceil>real n / real c\<rceil>"
proof (cases "n = 0")
  case True
  then show ?thesis using assms by simp
next
  case False
  let ?T = "(n + c - 1) div c"
  from False assms have b: "0 < ?T" "(?T - 1) * c < n" "n \<le> ?T * c"
    using ceil_div_bounds [of c n] by simp_all
  have "real n \<le> real (?T * c)" using b(3) by (simp only: of_nat_le_iff)
  then have u: "real n / real c \<le> real ?T" using assms by (simp add: divide_simps)
  have "real ((?T - 1) * c) < real n" using b(2) by (simp only: of_nat_less_iff)
  then have "real (?T - 1) < real n / real c" using assms by (simp add: divide_simps)
  then have l: "real ?T - 1 < real n / real c" using b(1) by (simp add: of_nat_diff)
  have "\<lceil>real n / real c\<rceil> = int ?T"
    by (rule ceiling_unique) (use u l in simp_all)
  then show ?thesis by simp
qed




lemma chunk_count_bounds:
  assumes "text_str s \<noteq> []" "0 < chunk_size s"
  shows "0 < chunk_count s"
    and "(chunk_count s - 1) * chunk_size s < length (text_str s)"
    and "length (text_str s) \<le> chunk_count s * chunk_size s"
  using assms ceil_div_bounds [of "chunk_size s" "length (text_str s)"]
  by (simp_all add: chunk_count_def)

lemma ceil_total_count_within: "ceil_total s \<Longrightarrow> count_within s"
  by (simp add: ceil_total_def count_within_def chunk_count_def)

lemma below_last_boundary:
  assumes "count_within s" "i < nat (total_chunks s)"
  shows "i * chunk_size s < length (text_str s)"
proof -
  from assms(1) have ne: "text_str s \<noteq> []" "0 < chunk_size s"
    and le: "total_chunks s \<le> int (chunk_count s)"
    by (simp_all add: count_within_def)
  have "i \<le> chunk_count s - 1" using assms(2) le by simp
  then have "i * chunk_size s \<le> (chunk_count s - 1) * chunk_size s"
    by (rule mult_le_mono1)
  also have "\<dots> < length (text_str s)" by (rule chunk_count_bounds(2) [OF ne])
  finally show ?thesis .
qed



lemma boundary_mono: "boundary s i \<le> boundary s (Suc i)"
  by (auto simp: boundary_def min_def intro!: diff_le_mono2 mult_le_mono1)

lemma boundary_le: "boundary s i \<le> length (text_str s)"
  by (simp add: boundary_def)

lemma chunk_bounds_boundary:
  assumes "count_within s" "i < nat (total_chunks s)"
  shows "chunk_bounds s (int i + 1) = (boundary s i, boundary s (Suc i))"
proof (cases "reverse_anchored s")
  case False
  have "i * chunk_size s < length (text_str s)" using assms by (rule below_last_boundary)
  with False show ?thesis
    by (simp add: chunk_bounds_def boundary_def Let_def)
next
  case True
  let ?T = "nat (total_chunks s)" and ?c = "chunk_size s" and ?n = "length (text_str s)"
  let ?j = "?T - Suc i"
  have j: "nat (total_chunks s - (int i + 1)) = ?j" using assms(2) by simp
  have "?j < ?T" using assms(2) by simp
  then have lt: "?j * ?c < ?n" using assms(1) below_last_boundary by blast
  have Tj: "?T - i = Suc ?j" using assms(2) by simp
  have e: "size_sub ?n (?j * ?c) = ?n - ?j * ?c" using lt by (simp add: size_sub_def)
  have st: "(if ?n - ?j * ?c > ?c then ?n - ?j * ?c - ?c else 0) = ?n - Suc ?j * ?c"
    by (simp add: add.commute)
  show ?thesis
    using True by (simp add: chunk_bounds_def boundary_def Let_def j e st Tj del: mult_Suc)
qed

lemma getChunkAtPosition_boundary:
  assumes "count_within s" "i < nat (total_chunks s)"
  shows "getChunkAtPosition s (int i + 1) =
           Inr (take (boundary s (Suc i) - boundary s i) (drop (boundary s i) (text_str s)))"
proof -
  have "int i + 1 \<le> total_chunks s" using assms(2) by simp
  then show ?thesis
    using boundary_mono [of s i] boundary_le [of s i]
    by (simp add: getChunkAtPosition_def chunk_bounds_boundary [OF assms] substr_def size_sub_def)
qed

lemma recalculateChunks_fields [simp]:
  "text_str (recalculateChunks s) = text_str s"
  "chunk_size (recalculateChunks s) = chunk_size s"
  "tail_mode (recalculateChunks s) = tail_mode s"
  "inverted (recalculateChunks s) = inverted s"
  "used_chunks (recalculateChunks s) = used_chunks s"
  "reverse_anchored (recalculateChunks s) = reverse_anchored s"
  by (simp_all add: recalculateChunks_def Let_def reverse_anchored_def)

lemma total_recalculateChunks:
  "total_chunks (recalculateChunks s) =
     (if int_of_size (size_wrap (length (text_str s) + chunk_size s - 1) div chunk_size s) = 0 then 1
      else int_of_size (size_wrap (length (text_str s) + chunk_size s - 1) div chunk_size s))"
  by (simp add: recalculateChunks_def Let_def)


text \<open>The stored count never exceeds the exact one.\<close>

lemma int_of_size_le: "int_of_size n \<le> int n"
proof -
  have "n mod 2 ^ 32 \<le> n" by simp
  then have "int (n mod 2 ^ 32) \<le> int n" by (simp only: of_nat_le_iff)
  then show ?thesis unfolding int_of_size_def by (cases "n mod 2 ^ 32 < 2 ^ 31") simp_all
qed

lemma machine_count_le:
  "int_of_size (size_wrap (length (text_str s) + chunk_size s - 1) div chunk_size s)
     \<le> int (chunk_count s)"
proof -
  have "size_wrap (length (text_str s) + chunk_size s - 1) \<le> length (text_str s) + chunk_size s - 1"
    by (simp add: size_wrap_def)
  then have "size_wrap (length (text_str s) + chunk_size s - 1) div chunk_size s \<le> chunk_count s"
    unfolding chunk_count_def by (rule div_le_mono)
  then have "int (size_wrap (length (text_str s) + chunk_size s - 1) div chunk_size s)
      \<le> int (chunk_count s)"
    by (simp only: of_nat_le_iff)
  with int_of_size_le [of "size_wrap (length (text_str s) + chunk_size s - 1) div chunk_size s"]
  show ?thesis by linarith
qed

lemma count_within_recalculateChunks:
  assumes "text_str s \<noteq> []" "0 < chunk_size s"
  shows "count_within (recalculateChunks s)"
proof -
  have "0 < chunk_count s" using assms by (rule chunk_count_bounds(1))
  then have "total_chunks (recalculateChunks s) \<le> int (chunk_count s)"
    using machine_count_le [of s] by (simp add: total_recalculateChunks)
  moreover have "chunk_count (recalculateChunks s) = chunk_count s"
    by (simp add: chunk_count_def)
  ultimately show ?thesis using assms by (simp add: count_within_def)
qed








lemma position_as_index:
  assumes "1 \<le> pos" "pos \<le> total_chunks s"
  obtains i where "pos = int i + 1" "i < nat (total_chunks s)"
proof
  show "pos = int (nat (pos - 1)) + 1" using assms by simp
  show "nat (pos - 1) < nat (total_chunks s)" using assms by simp
qed

lemma chunk_at_position:
  assumes "count_within s" "1 \<le> pos" "pos \<le> total_chunks s"
  shows "chunk_start s pos = boundary s (nat (pos - 1))"
    and "chunk_end s pos = boundary s (nat pos)"
    and "getChunkAtPosition s pos = Inr (slice (text_str s) (chunk_start s pos) (chunk_end s pos))"
    and "chunk_start s pos \<le> chunk_end s pos"
    and "chunk_end s pos \<le> length (text_str s)"
proof -
  from assms(2,3) obtain i where i: "pos = int i + 1" "i < nat (total_chunks s)"
    by (rule position_as_index)
  have n: "nat (pos - 1) = i" "nat pos = Suc i" using i(1) by simp_all
  have b: "chunk_bounds s pos = (boundary s i, boundary s (Suc i))"
    unfolding i(1) using assms(1) i(2) by (rule chunk_bounds_boundary)
  show "chunk_start s pos = boundary s (nat (pos - 1))" by (simp add: chunk_start_def b n)
  show "chunk_end s pos = boundary s (nat pos)" by (simp add: chunk_end_def b n)
  show "getChunkAtPosition s pos = Inr (slice (text_str s) (chunk_start s pos) (chunk_end s pos))"
    using getChunkAtPosition_boundary [OF assms(1) i(2)]
    by (simp add: i(1) [symmetric] chunk_start_def chunk_end_def b slice_def)
  show "chunk_start s pos \<le> chunk_end s pos"
    by (simp add: chunk_start_def chunk_end_def b boundary_mono)
  show "chunk_end s pos \<le> length (text_str s)"
    by (simp add: chunk_end_def b boundary_le)
qed

text \<open>The products and the sum of \<^verbatim>\<open>getChunkAtPosition\<close> stay below \<open>2 ^ 64\<close>, so that
  \<open>chunk_bounds\<close>, which computes them exactly, gives the values of the machine.\<close>

lemma bounds_in_range:
  assumes "count_within s" "machine_sizes s" "1 \<le> pos" "pos \<le> total_chunks s"
  shows "nat (total_chunks s - pos) * chunk_size s < 2 ^ 64"
    and "nat (pos - 1) * chunk_size s + chunk_size s < 2 ^ 64"
proof -
  from assms(2) have m: "length (text_str s) < 2 ^ 63" "chunk_size s < 2 ^ 64"
    by (simp_all add: machine_sizes_def)
  have "nat (total_chunks s - pos) < nat (total_chunks s)" using assms(3,4) by simp
  with assms(1) have "nat (total_chunks s - pos) * chunk_size s < length (text_str s)"
    by (rule below_last_boundary)
  with m(1) show "nat (total_chunks s - pos) * chunk_size s < 2 ^ 64" by simp
  have "nat (pos - 1) < nat (total_chunks s)" using assms(3,4) by simp
  with assms(1) have b: "nat (pos - 1) * chunk_size s < length (text_str s)"
    by (rule below_last_boundary)
  show "nat (pos - 1) * chunk_size s + chunk_size s < 2 ^ 64"
  proof (cases "pos = 1")
    case True
    with m(2) show ?thesis by simp
  next
    case False
    with assms(3) have "1 \<le> nat (pos - 1)" by simp
    then have "chunk_size s \<le> nat (pos - 1) * chunk_size s" by (cases "nat (pos - 1)") simp_all
    then have "chunk_size s < length (text_str s)" using b by (rule le_less_trans)
    with b have "nat (pos - 1) * chunk_size s + chunk_size s < length (text_str s) + length (text_str s)"
      by (rule add_strict_mono)
    also have "\<dots> < 2 ^ 64" using m(1) by simp
    finally show ?thesis .
  qed
qed

subsection \<open>The example text, evaluated\<close>

lemma s25_recalc: "recalculateChunks (s25 t) = s25 t"
  by (simp add: recalculateChunks_def s25_def size_wrap_def int_of_size_def)


lemma long_text_simps: "length long_text = 2147483648" "long_text \<noteq> []"
  by (simp_all add: long_text_def)





lemma longer_load:
  "loadText (Some (CHR ''a'' # long_text)) (TextChunker False 1 0) = (True, longer_engine False 1)"
  by (simp add: loadText_def TextChunker_def recalculateChunks_def longer_engine_def long_text_simps
      size_wrap_def int_of_size_def)

lemma longer_invert:
  "processCommand ''I'' stdin (longer_engine False 1)
     = returns True None (longer_engine True (- 2147483647)) stdin"
  "processCommand ''I'' stdin (longer_engine True (- 2147483647))
     = returns True None (longer_engine False (- 2147483647)) stdin"
  by (simp_all add: processCommand_def check_bounds_def longer_engine_def)

lemma s25_simps:
  "text_str (s25 t) = ''abcdefghijklmnopqrstuvwxy''" "length (text_str (s25 t)) = 25"
  "chunk_size (s25 t) = 10" "total_chunks (s25 t) = 3" "reverse_anchored (s25 t) = t"
  by (simp_all add: s25_def reverse_anchored_def)


lemma s25_bounds:
  "chunk_bounds (s25 True) 1 = (0, 5)" "chunk_bounds (s25 True) 2 = (5, 15)"
  "chunk_bounds (s25 True) 3 = (15, 25)"
  "chunk_bounds (s25 False) 1 = (0, 10)" "chunk_bounds (s25 False) 2 = (10, 20)"
  "chunk_bounds (s25 False) 3 = (20, 25)"
  by (simp_all add: chunk_bounds_def s25_simps size_sub_def)

lemma s25_chunks:
  "getChunkAtPosition (s25 True) 1 = Inr ''abcde''"
  "getChunkAtPosition (s25 True) 2 = Inr ''fghijklmno''"
  "getChunkAtPosition (s25 True) 3 = Inr ''pqrstuvwxy''"
  "getChunkAtPosition (s25 False) 1 = Inr ''abcdefghij''"
  "getChunkAtPosition (s25 False) 2 = Inr ''klmnopqrst''"
  "getChunkAtPosition (s25 False) 3 = Inr ''uvwxy''"
  by (simp_all add: getChunkAtPosition_def s25_bounds s25_simps substr_def size_sub_def)

section \<open>The chunks cut the text\<close>







lemma ceil_total_ceiling:
  "ceil_total s \<longleftrightarrow> text_str s \<noteq> [] \<and> 0 < chunk_size s \<and>
     total_chunks s = \<lceil>real (length (text_str s)) / real (chunk_size s)\<rceil>"
  using ceil_div_ceiling [of "chunk_size s" "length (text_str s)"]
  by (auto simp: ceil_total_def)

lemma reverse_end:
  assumes "count_within s" "reverse_anchored s" "1 \<le> pos" "pos \<le> total_chunks s"
  shows "nat (total_chunks s - pos) * chunk_size s < length (text_str s)"
    and "chunk_end s pos = length (text_str s) - nat (total_chunks s - pos) * chunk_size s"
    and "chunk_start s pos = chunk_end s pos - chunk_size s"
proof -
  let ?T = "nat (total_chunks s)" and ?c = "chunk_size s" and ?n = "length (text_str s)"
  have j: "nat (total_chunks s - pos) = ?T - nat pos" using assms(3,4) by simp
  have "?T - nat pos < ?T" using assms(3,4) by simp
  then show "nat (total_chunks s - pos) * ?c < ?n"
    unfolding j using assms(1) below_last_boundary by blast
  show e: "chunk_end s pos = ?n - nat (total_chunks s - pos) * ?c"
    using chunk_at_position(2) [OF assms(1,3,4)] assms(2) by (simp add: boundary_def j)
  have "?T - nat (pos - 1) = Suc (?T - nat pos)" using assms(3,4) by simp
  then have "chunk_start s pos = ?n - Suc (?T - nat pos) * ?c"
    using chunk_at_position(1) [OF assms(1,3,4)] assms(2) by (simp add: boundary_def del: mult_Suc)
  then show "chunk_start s pos = chunk_end s pos - ?c"
    by (simp add: e j add.commute)
qed

lemma reverse_full_chunk:
  assumes "count_within s" "reverse_anchored s" "1 < pos" "pos \<le> total_chunks s"
  shows "chunk_size s \<le> chunk_end s pos"
proof -
  let ?T = "nat (total_chunks s)" and ?c = "chunk_size s" and ?n = "length (text_str s)"
  have "Suc (?T - nat pos) < ?T" using assms(3,4) by simp
  then have "Suc (?T - nat pos) * ?c < ?n" using assms(1) below_last_boundary by blast
  then have "?c + (?T - nat pos) * ?c < ?n" by simp
  then have "?c \<le> ?n - (?T - nat pos) * ?c" by linarith
  moreover have "nat (total_chunks s - pos) = ?T - nat pos" using assms(3,4) by simp
  moreover have "chunk_end s pos = ?n - nat (total_chunks s - pos) * ?c"
    using assms(3) by (intro reverse_end(2) [OF assms(1,2) _ assms(4)]) simp
  ultimately show ?thesis by simp
qed

lemma chunk_length_slice:
  assumes "count_within s" "1 \<le> pos" "pos \<le> total_chunks s"
  shows "chunk_length s pos = chunk_end s pos - chunk_start s pos"
  using chunk_at_position(3,5) [OF assms]
  by (simp add: chunk_length_def slice_def)

text \<open>
  Claim C4. In the reverse-anchored direction the chunk at a position \<open>pos\<close> in
  \<open>1..total_chunks\<close> is the substring from \<open>max 0 (end - chunk_size)\<close> to
  \<open>end = length text - (total_chunks - pos) * chunk_size\<close>; only the chunk at position 1
  can be shorter than \<open>chunk_size\<close>. A text of 25 characters cut in chunks of 10 has three
  chunks, of sizes 5, 10, 10 when reverse-anchored and 10, 10, 5 when forward-anchored.
\<close>

theorem reverse_anchored_chunk:
  assumes "text_str s \<noteq> []" and "0 < chunk_size s"
  defines "s' \<equiv> recalculateChunks s"
  shows "(reverse_anchored s \<longrightarrow>
          (\<forall>pos. 1 \<le> pos \<and> pos \<le> total_chunks s' \<longrightarrow>
             int (chunk_end s' pos)
               = int (length (text_str s)) - (total_chunks s' - pos) * int (chunk_size s)
           \<and> int (chunk_start s' pos) = max 0 (int (chunk_end s' pos) - int (chunk_size s))
           \<and> getChunkAtPosition s' pos
               = Inr (slice (text_str s) (chunk_start s' pos) (chunk_end s' pos))
           \<and> chunk_length s' pos \<le> chunk_size s
           \<and> (1 < pos \<longrightarrow> chunk_length s' pos = chunk_size s)))
    \<and> (length (text_str s) = 25 \<and> chunk_size s = 10 \<longrightarrow>
          total_chunks s' = 3 \<and>
          map (chunk_length s') [1, 2, 3]
            = (if reverse_anchored s then [5, 10, 10] else [10, 10, 5]))"
proof (intro conjI impI allI)
  have c: "count_within s'" unfolding s'_def using assms(1,2) by (rule count_within_recalculateChunks)
  have t [simp]: "text_str s' = text_str s" "chunk_size s' = chunk_size s"
    "reverse_anchored s' = reverse_anchored s" by (simp_all add: s'_def)
  {
    fix pos
    assume r: "reverse_anchored s" and p: "1 \<le> pos \<and> pos \<le> total_chunks s'"
    then have r': "reverse_anchored s'" and p1: "1 \<le> pos" and p2: "pos \<le> total_chunks s'"
      by simp_all
    note e = reverse_end [OF c r' p1 p2]
    have n: "int (nat (total_chunks s' - pos)) = total_chunks s' - pos" using p2 by simp
    show en: "int (chunk_end s' pos)
        = int (length (text_str s)) - (total_chunks s' - pos) * int (chunk_size s)"
    proof -
      have "int (chunk_end s' pos) = int (length (text_str s))
          - int (nat (total_chunks s' - pos) * chunk_size s)"
        using e(1) unfolding e(2) by (simp add: of_nat_diff)
      then show ?thesis by (simp only: of_nat_mult n)
    qed
    show "int (chunk_start s' pos) = max 0 (int (chunk_end s' pos) - int (chunk_size s))"
      unfolding e(3) by (simp add: of_nat_diff max_def)
    show "getChunkAtPosition s' pos = Inr (slice (text_str s) (chunk_start s' pos) (chunk_end s' pos))"
      using chunk_at_position(3) [OF c p1 p2] by simp
    show "chunk_length s' pos \<le> chunk_size s"
      unfolding chunk_length_slice [OF c p1 p2] e(3) by simp
    show "chunk_length s' pos = chunk_size s" if "1 < pos"
      using reverse_full_chunk [OF c r' that p2]
      unfolding chunk_length_slice [OF c p1 p2] e(3) by simp
  }
  assume ex: "length (text_str s) = 25 \<and> chunk_size s = 10"
  then show T: "total_chunks s' = 3"
    by (simp add: s'_def total_recalculateChunks size_wrap_def int_of_size_def)
  have l: "chunk_length s' pos = boundary s' (nat pos) - boundary s' (nat (pos - 1))"
    if "1 \<le> pos" "pos \<le> 3" for pos
    using that chunk_length_slice [OF c, of pos] chunk_at_position(1,2) [OF c, of pos]
    by (simp add: T)
  show "map (chunk_length s') [1, 2, 3] = (if reverse_anchored s then [5, 10, 10] else [10, 10, 5])"
    using ex by (simp add: l boundary_def T)
qed

theorem reverse_anchored_chunk_witness:
  "text_str (s25 True) \<noteq> [] \<and> 0 < chunk_size (s25 True) \<and> reverse_anchored (s25 True)
   \<and> length (text_str (s25 True)) = 25 \<and> chunk_size (s25 True) = 10
   \<and> total_chunks (recalculateChunks (s25 True)) = 3
   \<and> chunk_end (recalculateChunks (s25 True)) 2 = 15
   \<and> chunk_start (recalculateChunks (s25 True)) 2 = 5
   \<and> getChunkAtPosition (recalculateChunks (s25 True)) 2 = Inr ''fghijklmno''
   \<and> chunk_length (recalculateChunks (s25 True)) 2 = 10
   \<and> map (chunk_length (recalculateChunks (s25 True))) [1, 2, 3] = [5, 10, 10]
   \<and> map (chunk_length (recalculateChunks (s25 False))) [1, 2, 3] = [10, 10, 5]"
proof -
  have h1: "text_str (s25 t) \<noteq> []" and h2: "0 < chunk_size (s25 t)" for t
    by (simp_all add: s25_simps)
  show ?thesis
    using h1 h2 reverse_anchored_chunk [OF h1 h2, of True] reverse_anchored_chunk [OF h1 h2, of False]
    unfolding s25_recalc
    by (simp add: s25_simps(2-) chunk_start_def chunk_end_def s25_bounds s25_chunks)
qed

text \<open>
  Claim C10. In the reverse-anchored branch, for a non-empty text, a positive chunk size,
  \<open>total_chunks = \<lceil>length text / chunk_size\<rceil>\<close> and a position in \<open>1..total_chunks\<close>, the
  product \<open>(total_chunks - pos) * chunk_size\<close> is at most the length of the text, so the
  unsigned subtraction does not wrap, \<open>start \<le> end \<le> length text\<close>, and \<^verbatim>\<open>substr\<close> does not
  throw.
\<close>

theorem reverse_end_no_underflow:
  assumes "text_str s \<noteq> []" and "0 < chunk_size s"
    and "total_chunks s = \<lceil>real (length (text_str s)) / real (chunk_size s)\<rceil>"
    and "reverse_anchored s"
    and "1 \<le> pos" and "pos \<le> total_chunks s"
  shows "nat (total_chunks s - pos) * chunk_size s \<le> length (text_str s)
    \<and> chunk_end s pos = length (text_str s) - nat (total_chunks s - pos) * chunk_size s
    \<and> chunk_start s pos \<le> chunk_end s pos
    \<and> chunk_end s pos \<le> length (text_str s)
    \<and> getChunkAtPosition s pos
         = Inr (take (chunk_end s pos - chunk_start s pos) (drop (chunk_start s pos) (text_str s)))"
proof -
  have "ceil_total s" using assms(1-3) by (simp add: ceil_total_ceiling)
  then have c: "count_within s" by (rule ceil_total_count_within)
  show ?thesis
    using reverse_end(1,2) [OF c assms(4-6)] chunk_at_position(3-5) [OF c assms(5,6)]
    by (simp add: slice_def)
qed

theorem reverse_end_no_underflow_witness:
  "text_str (s25 True) \<noteq> [] \<and> 0 < chunk_size (s25 True)
   \<and> total_chunks (s25 True) = \<lceil>real (length (text_str (s25 True))) / real (chunk_size (s25 True))\<rceil>
   \<and> reverse_anchored (s25 True) \<and> (1::int) \<le> 1 \<and> 1 \<le> total_chunks (s25 True)
   \<and> nat (total_chunks (s25 True) - 1) * chunk_size (s25 True) = 20
   \<and> chunk_end (s25 True) 1 = 5 \<and> chunk_start (s25 True) 1 = 0
   \<and> getChunkAtPosition (s25 True) 1 = Inr ''abcde''"
proof -
  have h1: "text_str (s25 True) \<noteq> []" and h2: "0 < chunk_size (s25 True)"
    and h3: "total_chunks (s25 True) = \<lceil>real (length (text_str (s25 True))) / real (chunk_size (s25 True))\<rceil>"
    and h4: "reverse_anchored (s25 True)" and h5: "(1::int) \<le> 1" and h6: "1 \<le> total_chunks (s25 True)"
    by (simp_all add: s25_simps)
  show ?thesis
    using h1 h2 h3 h4 h6 reverse_end_no_underflow [OF h1 h2 h3 h4 h5 h6]
    by (simp add: s25_simps(2-) chunk_start_def s25_bounds s25_chunks)
qed

section \<open>The invariant of a loaded engine\<close>

lemma getChunkAtPosition_total:
  assumes "count_within s"
  obtains c where "getChunkAtPosition s pos = Inr c"
proof (cases "1 \<le> pos \<and> pos \<le> total_chunks s")
  case True
  then show ?thesis using chunk_at_position(3) [OF assms, of pos] that by blast
next
  case False
  then have "getChunkAtPosition s pos = Inr []" by (auto simp: getChunkAtPosition_def)
  then show ?thesis using that by blast
qed


lemma count_within_position [simp]:
  "count_within (s\<lparr>current_chunk := p\<rparr>) = count_within s"
  "count_within (s\<lparr>used_chunks := u\<rparr>) = count_within s"
  by (simp_all add: count_within_def chunk_count_def)


lemma engine_inv_count_within: "engine_inv s \<Longrightarrow> count_within s"
  by (simp add: engine_inv_def ceil_total_count_within)



lemma ceil_total_cong:
  "text_str s' = text_str s \<Longrightarrow> chunk_size s' = chunk_size s \<Longrightarrow> total_chunks s' = total_chunks s
   \<Longrightarrow> ceil_total s' = ceil_total s"
  by (simp add: ceil_total_def)





lemma check_bounds_id: "1 \<le> current_chunk s \<Longrightarrow> current_chunk s \<le> total_chunks s \<Longrightarrow> check_bounds s = s"
  by (simp add: check_bounds_def Let_def)


lemma fits_recalculateChunks [simp]:
  "fits (recalculateChunks s) = fits s" "chunk_count (recalculateChunks s) = chunk_count s"
  "machine_sizes (recalculateChunks s) = machine_sizes s"
  by (simp_all add: fits_def chunk_count_def machine_sizes_def)







lemma count_within_getCurrentChunk:
  assumes "count_within s"
  obtains c where "getCurrentChunk s = Inr c"
  using assms getChunkAtPosition_total [of s "current_chunk s"]
  by (auto simp: getCurrentChunk_def)

lemma engine_inv_getCurrentChunk:
  assumes "engine_inv s"
  obtains c where "getCurrentChunk s = Inr c"
  using engine_inv_count_within [OF assms] by (rule count_within_getCurrentChunk)


lemma read_lines_length: "read_lines stdin = (a, rest) \<Longrightarrow> length rest \<le> length stdin"
  by (induction stdin arbitrary: a rest) (auto split: if_splits prod.splits)

lemma fits_cong [simp]:
  "fits (s\<lparr>current_chunk := p\<rparr>) = fits s" "fits (s\<lparr>used_chunks := u\<rparr>) = fits s"
  "fits (s\<lparr>inverted := b\<rparr>) = fits s" "fits (check_bounds s) = fits s"
  "fits (move_next s) = fits s" "fits (move_prev s) = fits s"
  "fits (markChunkAsUsed c s) = fits s"
  by (simp_all add: fits_def chunk_count_def machine_sizes_def check_bounds_def Let_def
      move_next_def move_prev_def markChunkAsUsed_def)

lemma count_within_cong [simp]:
  "count_within (check_bounds s) = count_within s"
  "count_within (move_next s) = count_within s" "count_within (move_prev s) = count_within s"
  "count_within (markChunkAsUsed c s) = count_within s"
  by (simp_all add: count_within_def chunk_count_def check_bounds_def Let_def
      move_next_def move_prev_def markChunkAsUsed_def)














lemma processCommand_returns:
  assumes "engine_inv s" "cmd \<noteq> []"
  shows "processCommand cmd stdin s \<noteq> None"
proof -
  obtain c where g: "getCurrentChunk s = Inr c" using assms(1) by (rule engine_inv_getCurrentChunk)
  show ?thesis
    using assms(2) g
    by (simp add: processCommand_def returns_def split: prod.splits sum.splits)
qed

lemma processCommand_invert:
  assumes "cmd = ''I'' \<or> cmd = ''i''" "1 \<le> current_chunk s" "current_chunk s \<le> total_chunks s"
  shows "processCommand cmd stdin s = returns True None
      (s\<lparr>inverted := \<not> inverted s, current_chunk := total_chunks s - current_chunk s + 1\<rparr>) stdin"
proof -
  have "check_bounds (s\<lparr>inverted := \<not> inverted s, current_chunk := total_chunks s - current_chunk s + 1\<rparr>)
      = s\<lparr>inverted := \<not> inverted s, current_chunk := total_chunks s - current_chunk s + 1\<rparr>"
    using assms(2,3) by (intro check_bounds_id) simp_all
  then show ?thesis using assms(1) by (elim disjE) (simp_all add: processCommand_def)
qed


section \<open>The consumed contents and the layout\<close>












section \<open>The examples, evaluated\<close>

lemma s25_fields:
  "current_chunk (s25 t) = 1" "inverted (s25 t) = False" "tail_mode (s25 t) = t"
  "(s25 False)\<lparr>inverted := True, current_chunk := 3\<rparr>\<lparr>inverted := False, current_chunk := 1\<rparr> = s25 False"
  by (simp_all add: s25_def)



lemma s25_resized:
  "check_bounds (recalculateChunks ((s25 False)\<lparr>chunk_size := 5, used_chunks := {}\<rparr>))
     = (s25 False)\<lparr>chunk_size := 5, total_chunks := 5\<rparr>"
  by (simp add: check_bounds_def recalculateChunks_def s25_def size_wrap_def int_of_size_def)

lemma stoul_examples: "stoul ''5'' = Inr 5" "stoul ''30'' = Inr 30" "stoul ''0'' = Inr 0"
  by (simp_all add: stoul_def digits_value_def)

lemma stuck_chunks:
  "getChunkAtPosition (stuck pos) 1 = Inr ''ab''" "getChunkAtPosition (stuck pos) 2 = Inr ''ab''"
  by (simp_all add: stuck_def getChunkAtPosition_def chunk_bounds_def reverse_anchored_def
      substr_def size_sub_def)

lemma stuck_moves: "move_next (stuck 1) = stuck 2" "move_next (stuck 2) = stuck 2"
  by (simp_all add: stuck_def move_next_def reverse_anchored_def)

lemma stuck_loop_diverges:
  assumes "findNextUnused_loop st s = Some y"
  shows "\<not> (st = 1 \<and> (s = stuck 1 \<or> s = stuck 2))"
proof (rule findNextUnused_loop.raw_induct
    [where P = "\<lambda>st s y. \<not> (st = 1 \<and> (s = stuck 1 \<or> s = stuck 2))", OF _ assms])
  fix loop st s y
  assume IH: "\<And>st s y. loop st s = Some y \<Longrightarrow> \<not> (st = 1 \<and> (s = stuck 1 \<or> s = stuck 2))"
    and body: "(case getChunkAtPosition s (current_chunk s) of
          Inl e \<Rightarrow> Some (Inl e)
        | Inr chunk \<Rightarrow>
            if \<not> isChunkUsed s chunk then Some (Inr (current_chunk s, s))
            else if current_chunk (move_next s) = st then Some (Inr (- 1, move_next s))
            else loop st (move_next s)) = Some y"
  show "\<not> (st = 1 \<and> (s = stuck 1 \<or> s = stuck 2))"
  proof
    assume a: "st = 1 \<and> (s = stuck 1 \<or> s = stuck 2)"
    have cur: "current_chunk (stuck 1) = 1" "current_chunk (stuck 2) = 2"
      and used: "isChunkUsed (stuck 1) ''ab''" "isChunkUsed (stuck 2) ''ab''"
      by (simp_all add: stuck_def isChunkUsed_def)
    from a body have "loop 1 (stuck 2) = Some y"
      by (auto simp: cur used stuck_chunks stuck_moves)
    with IH show False by blast
  qed
qed

lemma dup_simps:
  "text_str (dup iv pos used) = ''ababa''" "chunk_size (dup iv pos used) = 2"
  "reverse_anchored (dup iv pos used) = iv" "current_chunk (dup iv pos used) = pos"
  "total_chunks (dup iv pos used) = 3" "used_chunks (dup iv pos used) = used"
  "inverted (dup iv pos used) = iv"
  "(dup iv pos used)\<lparr>current_chunk := q\<rparr> = dup iv q used"
  "(dup iv pos used)\<lparr>used_chunks := u\<rparr> = dup iv pos u"
  "(dup iv pos used)\<lparr>inverted := i, current_chunk := q\<rparr> = dup i q used"
  by (simp_all add: dup_def reverse_anchored_def)

















section \<open>Position and chunk count\<close>




section \<open>Inversion\<close>

text \<open>
  Claim C6, as stated, fails, since the bounds check that closes \<^verbatim>\<open>processCommand\<close> moves a
  mirrored position that left \<open>1..total_chunks\<close>. On the engine at position 5 of 3 chunks
  the first invert-command gives position 1 and the second gives position 3, not 5. Such an
  engine is reached, too: after \<^verbatim>\<open>loadText\<close> on a text of \<open>2 ^ 31 + 1\<close> characters with
  chunks of one character, \<open>total_chunks\<close> is \<open>- 2147483647\<close> and the position is 1; two
  invert-commands leave the position at \<open>- 2147483647\<close>.
\<close>

theorem invert_twice_moves_position:
  "after ''I'' [] (dup False 5 {}) = Some (dup True 1 {})
   \<and> after ''I'' [] (dup True 1 {}) = Some (dup False 3 {})
   \<and> Option.bind (after ''I'' [] (dup False 5 {})) (after ''I'' []) = Some (dup False 3 {})
   \<and> current_chunk (dup False 5 {}) = 5 \<and> current_chunk (dup False 3 {}) = 3
   \<and> loadText (Some (CHR ''a'' # long_text)) (TextChunker False 1 0) = (True, longer_engine False 1)
   \<and> after ''I'' [] (longer_engine False 1) = Some (longer_engine True (- 2147483647))
   \<and> after ''I'' [] (longer_engine True (- 2147483647)) = Some (longer_engine False (- 2147483647))
   \<and> current_chunk (longer_engine False 1) = 1
   \<and> current_chunk (longer_engine False (- 2147483647)) = - 2147483647"
proof -
  have a: "after ''I'' [] (dup False 5 {}) = Some (dup True 1 {})"
    "after ''I'' [] (dup True 1 {}) = Some (dup False 3 {})"
    by (simp_all add: after_def processCommand_def returns_def check_bounds_def dup_simps)
  have b: "after ''I'' [] (longer_engine False 1) = Some (longer_engine True (- 2147483647))"
    "after ''I'' [] (longer_engine True (- 2147483647)) = Some (longer_engine False (- 2147483647))"
    by (simp_all add: after_def longer_invert returns_def)
  have c: "current_chunk (longer_engine False 1) = 1"
    "current_chunk (longer_engine False (- 2147483647)) = - 2147483647"
    by (simp_all add: longer_engine_def)
  show ?thesis
    using longer_load by (simp add: a b c dup_simps)
qed

text \<open>
  Claim C6, amended. On every engine whose position lies in \<open>1..total_chunks\<close>, the
  invert-command flips \<open>inverted\<close> and mirrors the position, and a second invert-command
  gives back the engine the first one started from: position, \<open>inverted\<close> and every other
  field.
\<close>

theorem invert_twice:
  fixes s :: chunker
  assumes "1 \<le> current_chunk s" and "current_chunk s \<le> total_chunks s"
  defines "s1 \<equiv> s\<lparr>inverted := \<not> inverted s, current_chunk := total_chunks s - current_chunk s + 1\<rparr>"
  shows "after ''I'' stdin s = Some s1 \<and> after ''I'' stdin s1 = Some s
    \<and> Option.bind (after ''I'' stdin s) (after ''I'' stdin) = Some s"
proof -
  have a: "after ''I'' stdin s = Some s1"
    using processCommand_invert [OF _ assms(1,2), of "''I''" stdin]
    by (simp add: after_def returns_def s1_def)
  have "after ''I'' stdin s1 = Some (s1\<lparr>inverted := \<not> inverted s1,
      current_chunk := total_chunks s1 - current_chunk s1 + 1\<rparr>)"
    using processCommand_invert [of "''I''" s1 stdin] assms(1,2)
    by (simp add: after_def returns_def s1_def)
  then have b: "after ''I'' stdin s1 = Some s" by (simp add: s1_def)
  show ?thesis by (simp add: a b)
qed

theorem invert_twice_witness:
  "1 \<le> current_chunk (s25 False) \<and> current_chunk (s25 False) \<le> total_chunks (s25 False)
   \<and> after ''I'' [] (s25 False) = Some ((s25 False)\<lparr>inverted := True, current_chunk := 3\<rparr>)
   \<and> after ''I'' [] ((s25 False)\<lparr>inverted := True, current_chunk := 3\<rparr>) = Some (s25 False)"
proof -
  have h1: "1 \<le> current_chunk (s25 False)" and h2: "current_chunk (s25 False) \<le> total_chunks (s25 False)"
    by (simp_all add: s25_simps s25_fields)
  show ?thesis
    using h1 h2 invert_twice [OF h1 h2, where stdin = "[]"]
    by (simp add: s25_simps s25_fields)
qed




section \<open>Resizing\<close>

text \<open>Every size that fits \<^verbatim>\<open>unsigned long\<close> is the value of a string of digits.\<close>

lemma digits_value_snoc: "digits_value (ds @ [c]) = 10 * digits_value ds + (of_char c - 48)"
  by (simp add: digits_value_def)

lemma of_char_digit: "d < 10 \<Longrightarrow> (of_char (char_of (48 + d :: nat)) :: nat) = 48 + d"
  by simp

lemma decimal_digits:
  "decimal n \<noteq> []" "list_all isdigit (decimal n)" "digits_value (decimal n) = n"
proof -
  show "decimal n \<noteq> []" by (subst decimal.simps) simp
  show "list_all isdigit (decimal n)"
  proof (induction n rule: decimal.induct)
    case (1 n)
    have d: "isdigit (char_of (48 + d :: nat))" if "d < 10" for d
      using that by (simp add: isdigit_def)
    show ?case
    proof (cases "n < 10")
      case True
      then show ?thesis by (subst decimal.simps) (simp add: d)
    next
      case False
      with 1 have "list_all isdigit (decimal (n div 10))" by simp
      moreover have "isdigit (char_of (48 + n mod 10))" by (rule d) simp
      ultimately show ?thesis using False by (subst decimal.simps) simp
    qed
  qed
  show "digits_value (decimal n) = n"
  proof (induction n rule: decimal.induct)
    case (1 n)
    show ?case
    proof (cases "n < 10")
      case True
      then show ?thesis by (subst decimal.simps) (simp add: digits_value_def)
    next
      case False
      with 1 have "digits_value (decimal (n div 10)) = n div 10" by simp
      moreover have "(of_char (char_of (48 + n mod 10)) :: nat) = 48 + n mod 10"
        by (rule of_char_digit) simp
      ultimately show ?thesis
        using False by (subst decimal.simps) (simp add: digits_value_snoc)
    qed
  qed
qed

lemma every_size_has_a_command:
  assumes "n \<le> 2 ^ 64 - 1"
  shows "decimal n \<noteq> [] \<and> list_all isdigit (decimal n) \<and> stoul (decimal n) = Inr n"
  using assms by (simp add: decimal_digits stoul_def del: decimal.simps)

text \<open>For a string of digits that \<^verbatim>\<open>std::stoul\<close> converts, the resize-command is rejected
  with the invalid-size message, the engine left as it was, unless \<open>0 < n \<le> length text\<close>;
  otherwise it sets \<open>chunk_size\<close> to \<open>n\<close>, empties \<open>used_chunks\<close> and recomputes
  \<open>total_chunks\<close> and the position.\<close>

lemma resize_command:
  fixes s :: chunker
  assumes "ds \<noteq> []" and "list_all isdigit ds" and "stoul ds = Inr n"
  defines "s' \<equiv> check_bounds (recalculateChunks (s\<lparr>chunk_size := n, used_chunks := {}\<rparr>))"
  shows "processCommand (CHR ''$'' # ds) stdin s =
           (if 0 < n \<and> n \<le> length (text_str s) then returns True None s' stdin
            else returns True (Some Invalid_chunk_size) s stdin)"
    and "chunk_size s' = n" and "used_chunks s' = {}" and "text_str s' = text_str s"
    and "tail_mode s' = tail_mode s" and "inverted s' = inverted s"
    and "total_chunks s' = total_chunks (recalculateChunks (s\<lparr>chunk_size := n\<rparr>))"
proof -
  show "processCommand (CHR ''$'' # ds) stdin s =
           (if 0 < n \<and> n \<le> length (text_str s) then returns True None s' stdin
            else returns True (Some Invalid_chunk_size) s stdin)"
    using assms(1-3) by (simp add: processCommand_def s'_def)
  show "chunk_size s' = n" "used_chunks s' = {}" "text_str s' = text_str s"
    "tail_mode s' = tail_mode s" "inverted s' = inverted s"
    "total_chunks s' = total_chunks (recalculateChunks (s\<lparr>chunk_size := n\<rparr>))"
    by (simp_all add: s'_def check_bounds_def recalculateChunks_def Let_def)
qed

lemma digits_2_64:
  "list_all isdigit ''18446744073709551616''"
  "digits_value ''18446744073709551616'' = 18446744073709551616"
  "list_all isdigit ''18446744073709551615''"
  "digits_value ''18446744073709551615'' = 18446744073709551615"
  by (simp_all add: isdigit_def digits_value_def)

lemma resize_throws:
  "processCommand ''$18446744073709551616'' stdin s = Some (Inl Std_out_of_range)"
  using digits_2_64(1) by (simp add: processCommand_def stoul_def digits_2_64(2))

text \<open>
  Claim C7 states that a resize request outside \<open>0 < n \<le> length text\<close> is rejected with the
  invalid-size message and leaves the engine as it was. For the request \<open>2 ^ 64\<close>, typed as
  \<open>$18446744073709551616\<close>, the code does not get that far: \<^verbatim>\<open>std::stoul\<close> (xcli.cpp 443)
  throws \<^verbatim>\<open>std::out_of_range\<close>, nothing catches it, and \<^verbatim>\<open>run\<close> ends with the exception
  instead of asking for the next command. The request \<open>2 ^ 64 - 1\<close> is rejected as the claim
  says.
\<close>

theorem resize_out_of_range_uncaught:
  "list_all isdigit ''18446744073709551616''
   \<and> digits_value ''18446744073709551616'' = 2 ^ 64
   \<and> \<not> (2 ^ 64 \<le> length (text_str (s25 False)))
   \<and> processCommand ''$18446744073709551616'' [] (s25 False) = Some (Inl Std_out_of_range)
   \<and> processCommand ''$18446744073709551616'' [] (s25 False)
       \<noteq> returns True (Some Invalid_chunk_size) (s25 False) []
   \<and> loadText (Some ''abcdefghijklmnopqrstuvwxy'') (TextChunker False 10 0) = (True, s25 False)
   \<and> run [''$18446744073709551616''] (s25 False) = Some (Inl Std_out_of_range)
   \<and> digits_value ''18446744073709551615'' = 2 ^ 64 - 1
   \<and> processCommand ''$18446744073709551615'' [] (s25 False)
       = returns True (Some Invalid_chunk_size) (s25 False) []"
proof -
  have l: "loadText (Some ''abcdefghijklmnopqrstuvwxy'') (TextChunker False 10 0) = (True, s25 False)"
    by (simp add: loadText_def TextChunker_def recalculateChunks_def s25_def size_wrap_def
        int_of_size_def)
  have g: "getCurrentChunk (s25 False) = Inr ''abcdefghij''"
    by (simp add: getCurrentChunk_def s25_fields s25_chunks)
  have c: "copyToClipboard (s25 False) = Some (Inr (markChunkAsUsed ''abcdefghij'' (s25 False)))"
    by (simp add: copyToClipboard_def g isChunkUsed_def) (simp add: s25_def)
  have f: "\<not> isAtFinalChunk (markChunkAsUsed ''abcdefghij'' (s25 False))"
    by (simp add: isAtFinalChunk_def markChunkAsUsed_def s25_def reverse_anchored_def)
  have r: "run [''$18446744073709551616''] (s25 False) = Some (Inl Std_out_of_range)"
    by (subst run.simps) (simp add: c f resize_throws del: markChunkAsUsed_def)
  have p: "processCommand ''$18446744073709551615'' [] (s25 False)
      = returns True (Some Invalid_chunk_size) (s25 False) []"
    using digits_2_64(3)
    by (simp add: processCommand_def stoul_def digits_2_64(4) s25_simps)
  have d: "digits_value ''18446744073709551616'' = 2 ^ 64"
    "digits_value ''18446744073709551615'' = 2 ^ 64 - 1"
    by (simp_all add: digits_2_64)
  show ?thesis
    using digits_2_64(1) by (simp add: d l r p resize_throws returns_def s25_simps)
qed

section \<open>The scan for an unused chunk\<close>

text \<open>On the boundary position of the direction the scan gives up at once: with \<open>abcd\<close> in
  chunks of 2, at position 2 with \<open>cd\<close> consumed, it answers \<open>- 1\<close> although \<open>ab\<close> at
  position 1 is not consumed.\<close>

lemma scan_stops_at_boundary:
  "findNextUnusedChunk ((stuck 2)\<lparr>text_str := ''abcd'', used_chunks := {''cd''}\<rparr>)
       = Some (Inr (- 1, (stuck 2)\<lparr>text_str := ''abcd'', used_chunks := {''cd''}\<rparr>))
   \<and> getChunkAtPosition ((stuck 2)\<lparr>text_str := ''abcd'', used_chunks := {''cd''}\<rparr>) 1 = Inr ''ab''
   \<and> \<not> isChunkUsed ((stuck 2)\<lparr>text_str := ''abcd'', used_chunks := {''cd''}\<rparr>) ''ab''"
  unfolding findNextUnusedChunk_def
  by (subst findNextUnused_loop.simps)
    (simp add: stuck_def getChunkAtPosition_def chunk_bounds_def reverse_anchored_def
      substr_def size_sub_def isChunkUsed_def move_next_def)

text \<open>
  Claim C2 states that \<^verbatim>\<open>findNextUnusedChunk\<close> always returns. On the text \<open>abab\<close> in
  chunks of 2, forward-anchored at position 1 with the content \<open>ab\<close> consumed, it does not:
  the position is cut at \<open>total_chunks = 2\<close> instead of wrapping, so it never comes back to
  the start position 1. The state is the one \<^verbatim>\<open>run\<close> is in after loading that text and
  copying the first chunk; the empty command then never returns.
\<close>

theorem findNextUnusedChunk_hangs:
  "findNextUnusedChunk (stuck 1) = None
   \<and> loadText (Some ''abab'') (TextChunker False 2 0) = (True, (stuck 1)\<lparr>used_chunks := {}\<rparr>)
   \<and> run [[]] ((stuck 1)\<lparr>used_chunks := {}\<rparr>) = None"
proof -
  have h: "findNextUnusedChunk (stuck 1) = None"
  proof (cases "findNextUnusedChunk (stuck 1)")
    case (Some y)
    then have "findNextUnused_loop 1 (stuck 1) = Some y"
      by (simp add: findNextUnusedChunk_def stuck_def)
    from stuck_loop_diverges [OF this] show ?thesis by simp
  qed
  have l: "loadText (Some ''abab'') (TextChunker False 2 0) = (True, (stuck 1)\<lparr>used_chunks := {}\<rparr>)"
    by (simp add: loadText_def TextChunker_def recalculateChunks_def stuck_def size_wrap_def
        int_of_size_def)
  have g: "getCurrentChunk ((stuck 1)\<lparr>used_chunks := {}\<rparr>) = Inr ''ab''"
    by (simp add: stuck_def getCurrentChunk_def getChunkAtPosition_def chunk_bounds_def
        reverse_anchored_def substr_def size_sub_def)
  have c: "copyToClipboard ((stuck 1)\<lparr>used_chunks := {}\<rparr>) = Some (Inr (stuck 1))"
    by (simp add: copyToClipboard_def g isChunkUsed_def markChunkAsUsed_def) (simp add: stuck_def)
  have f: "\<not> isAtFinalChunk (stuck 1)"
    by (simp add: isAtFinalChunk_def stuck_def reverse_anchored_def)
  have p: "processCommand [] [] (stuck 1) = None"
    by (simp add: processCommand_def h)
  have "run [[]] ((stuck 1)\<lparr>used_chunks := {}\<rparr>) = None"
    by (subst run.simps) (simp add: c f p)
  with h l show ?thesis by simp
qed

section \<open>Unused chunks and equal contents\<close>




end
